theory Spec2Isabelle
  imports Main
begin

section \<open>Run-time values of the Python program\<close>

text \<open>
  \<^verbatim>\<open>main.py\<close> declares no types: \<^verbatim>\<open>add\<close>, \<^verbatim>\<open>multiply\<close> and \<^verbatim>\<open>greet\<close> accept whatever
  object the caller passes, and the operators \<^verbatim>\<open>+\<close>, \<^verbatim>\<open>*\<close> and the f-string decide at run
  time what happens. The embedding works over the built-in values \<^verbatim>\<open>None\<close>, booleans,
  unbounded integers and strings, and every theorem below speaks about these kinds of
  value only: floating-point numbers, containers and objects of user-defined classes are
  outside the model, and nothing is stated about them. A string is a \<open>char list\<close>, one
  \<open>char\<close> for each character of the Python string.

  An uncaught exception is the \<open>Inl\<close> side of a sum. The operators follow CPython 3.11 on
  a 64-bit platform in its default configuration: a repetition count is converted to a
  signed 64-bit index, and an integer of more than 4300 decimal digits is not converted
  to text. Allocation is assumed to succeed, so \<^verbatim>\<open>MemoryError\<close> is not an outcome of the
  model; the length checks of CPython that only strings too long to be held in memory
  could trigger (as in concatenation) are left out with it.
\<close>

datatype pyval = PNone | PBool bool | PInt int | PStr string

datatype error = TypeError | OverflowError | ValueError

text \<open>\<^verbatim>\<open>bool\<close> is a subclass of \<^verbatim>\<open>int\<close>: in arithmetic \<^verbatim>\<open>True\<close> counts as 1, \<^verbatim>\<open>False\<close> as 0.\<close>

fun as_int :: "pyval \<Rightarrow> int option" where
  "as_int (PInt i) = Some i"
| "as_int (PBool b) = Some (if b then 1 else 0)"
| "as_int (PStr s) = None"
| "as_int PNone = None"

fun as_str :: "pyval \<Rightarrow> string option" where
  "as_str (PStr s) = Some s"
| "as_str (PInt i) = None"
| "as_str (PBool b) = None"
| "as_str PNone = None"

text \<open>The largest value of the index type \<^verbatim>\<open>Py_ssize_t\<close>.\<close>

definition PY_SSIZE_T_MAX :: int where
  "PY_SSIZE_T_MAX = 2 ^ 63 - 1"

text \<open>
  \<^verbatim>\<open>s * k\<close> on a string. The count is first converted to an index, which raises
  \<^verbatim>\<open>OverflowError\<close> outside the 64-bit range, whatever the string. A count below 1 gives
  the empty string and the count 1 the string itself. Otherwise the length of the result
  must fit an index, or \<^verbatim>\<open>OverflowError\<close> is raised; then the result is \<open>k\<close> copies of
  \<open>s\<close>.
\<close>

definition str_repeat :: "string \<Rightarrow> int \<Rightarrow> error + string" where
  "str_repeat s k =
     (if k < - PY_SSIZE_T_MAX - 1 \<or> PY_SSIZE_T_MAX < k then Inl OverflowError
      else if k < 1 then Inr []
      else if k = 1 then Inr s
      else if PY_SSIZE_T_MAX div k < int (length s) then Inl OverflowError
      else Inr (concat (replicate (nat k) s)))"

text \<open>
  The operator \<^verbatim>\<open>a + b\<close>: integer addition on two numbers, concatenation on two
  strings, \<^verbatim>\<open>TypeError\<close> on every other pair of these values.
\<close>

definition py_add :: "pyval \<Rightarrow> pyval \<Rightarrow> error + pyval" where
  "py_add a b =
     (case (as_int a, as_int b) of
        (Some i, Some j) \<Rightarrow> Inr (PInt (i + j))
      | _ \<Rightarrow>
        (case (as_str a, as_str b) of
           (Some s, Some t) \<Rightarrow> Inr (PStr (s @ t))
         | _ \<Rightarrow> Inl TypeError))"

text \<open>
  The operator \<^verbatim>\<open>a * b\<close>: integer multiplication on two numbers, repetition on a
  string and a number (in either order), \<^verbatim>\<open>TypeError\<close> on every other pair of these
  values.
\<close>

definition repeated :: "string \<Rightarrow> int \<Rightarrow> error + pyval" where
  "repeated s k = (case str_repeat s k of Inl e \<Rightarrow> Inl e | Inr r \<Rightarrow> Inr (PStr r))"

definition py_mul :: "pyval \<Rightarrow> pyval \<Rightarrow> error + pyval" where
  "py_mul a b =
     (case (as_int a, as_int b) of
        (Some i, Some j) \<Rightarrow> Inr (PInt (i * j))
      | (None, Some k) \<Rightarrow>
        (case as_str a of Some s \<Rightarrow> repeated s k | None \<Rightarrow> Inl TypeError)
      | (Some k, None) \<Rightarrow>
        (case as_str b of Some s \<Rightarrow> repeated s k | None \<Rightarrow> Inl TypeError)
      | (None, None) \<Rightarrow> Inl TypeError)"

subsection \<open>Conversion to text\<close>

definition digit :: "nat \<Rightarrow> char" where
  "digit d = ''0123456789'' ! d"

fun digits :: "nat \<Rightarrow> string" where
  "digits n = (if n < 10 then [digit n] else digits (n div 10) @ [digit (n mod 10)])"

declare digits.simps [simp del]

definition str_int :: "int \<Rightarrow> string" where
  "str_int i = (if i < 0 then CHR ''-'' # digits (nat (- i)) else digits (nat i))"

text \<open>The default of \<^verbatim>\<open>sys.int_info.default_max_str_digits\<close>; the program never
  changes it.\<close>

definition int_max_str_digits :: nat where
  "int_max_str_digits = 4300"

text \<open>
  \<^verbatim>\<open>str(v)\<close>, which is also what an f-string field \<^verbatim>\<open>{v}\<close> without a format
  specification inserts. An integer with more digits (the sign not counted) than the
  limit raises \<^verbatim>\<open>ValueError\<close>.
\<close>

fun py_str :: "pyval \<Rightarrow> error + string" where
  "py_str (PStr s) = Inr s"
| "py_str (PInt i) =
     (if int_max_str_digits < length (digits (nat \<bar>i\<bar>)) then Inl ValueError
      else Inr (str_int i))"
| "py_str (PBool b) = Inr (if b then ''True'' else ''False'')"
| "py_str PNone = Inr ''None''"

text \<open>What a decimal text denotes, to state that \<open>digits\<close> writes the number it is
  given.\<close>

definition digit_val :: "char \<Rightarrow> nat" where
  "digit_val c = of_char c - 48"

definition decimal_value :: "string \<Rightarrow> nat" where
  "decimal_value cs = foldl (\<lambda>a c. 10 * a + digit_val c) 0 cs"

section \<open>Standard output and statements\<close>

text \<open>
  The state a Python statement can touch in this program is standard output, a stream
  of characters. A computation is a function from the world to an outcome (an exception
  or a value) and the world after it, so a computation may read and change the world;
  an exception skips the computations that follow.
\<close>

record world =
  stdout :: string

type_synonym 'a prog = "world \<Rightarrow> (error + 'a) \<times> world"

definition bindp :: "'a prog \<Rightarrow> ('a \<Rightarrow> 'b prog) \<Rightarrow> 'b prog" where
  "bindp m f w = (case m w of (Inl e, w') \<Rightarrow> (Inl e, w') | (Inr x, w') \<Rightarrow> f x w')"

text \<open>The f-string \<^verbatim>\<open>f"<pre>{v}<post>"\<close> with one field between two literal parts.\<close>

definition fstring :: "string \<Rightarrow> pyval \<Rightarrow> string \<Rightarrow> pyval prog" where
  "fstring pre v post w =
     (case py_str v of
        Inl e \<Rightarrow> (Inl e, w)
      | Inr t \<Rightarrow> (Inr (PStr (pre @ t @ post)), w))"

text \<open>\<^verbatim>\<open>print(v)\<close> writes \<^verbatim>\<open>str(v)\<close> and a newline.\<close>

definition print :: "pyval \<Rightarrow> unit prog" where
  "print v w =
     (case py_str v of
        Inl e \<Rightarrow> (Inl e, w)
      | Inr t \<Rightarrow> (Inr (), w\<lparr>stdout := stdout w @ t @ [CHR 0x0A]\<rparr>))"

section \<open>The functions of \<^verbatim>\<open>main.py\<close>\<close>

text \<open>\<^verbatim>\<open>def add(a, b): return a + b\<close>\<close>

definition add :: "pyval \<Rightarrow> pyval \<Rightarrow> pyval prog" where
  "add a b w = (py_add a b, w)"

text \<open>\<^verbatim>\<open>def multiply(a, b): return a * b\<close>\<close>

definition multiply :: "pyval \<Rightarrow> pyval \<Rightarrow> pyval prog" where
  "multiply a b w = (py_mul a b, w)"

text \<open>\<^verbatim>\<open>def greet(name): return f"Hello, {name}!"\<close>\<close>

definition greet :: "pyval \<Rightarrow> pyval prog" where
  "greet name = fstring ''Hello, '' name ''!''"

text \<open>
  The block under \<^verbatim>\<open>if __name__ == "__main__":\<close>
  \<^verbatim>\<open>
    print(greet("World"))
    print(f"2 + 3 = {add(2, 3)}")
    print(f"4 * 5 = {multiply(4, 5)}")
  \<close>
\<close>

definition main_block :: "unit prog" where
  "main_block =
     bindp (greet (PStr ''World'')) (\<lambda>g.
     bindp (print g) (\<lambda>_.
     bindp (add (PInt 2) (PInt 3)) (\<lambda>s.
     bindp (fstring ''2 + 3 = '' s '''') (\<lambda>l.
     bindp (print l) (\<lambda>_.
     bindp (multiply (PInt 4) (PInt 5)) (\<lambda>p.
     bindp (fstring ''4 * 5 = '' p '''') (\<lambda>l.
     print l)))))))"

text \<open>Executing the module with \<^verbatim>\<open>__name__\<close> bound to \<open>name\<close>: the three \<^verbatim>\<open>def\<close>s
  only bind names, then the guarded block runs or is skipped.\<close>

definition run_module :: "string \<Rightarrow> unit prog" where
  "run_module name w = (if name = ''__main__'' then main_block w else (Inr (), w))"

text \<open>The interpreter's exit status: 0 after a normal end, 1 after an uncaught exception.\<close>

definition exit_code :: "(error + unit) \<times> world \<Rightarrow> int" where
  "exit_code r = (case fst r of Inl e \<Rightarrow> 1 | Inr u \<Rightarrow> 0)"

section \<open>Facts about the operators\<close>

lemma py_add_int: "py_add (PInt a) (PInt b) = Inr (PInt (a + b))"
  by (simp add: py_add_def)

lemma py_mul_int: "py_mul (PInt a) (PInt b) = Inr (PInt (a * b))"
  by (simp add: py_mul_def)

lemma py_add_str: "py_add (PStr s) (PStr t) = Inr (PStr (s @ t))"
  by (simp add: py_add_def)

lemma py_mul_str_int: "py_mul (PStr s) (PInt k) = repeated s k"
  by (simp add: py_mul_def)

lemma py_add_str_int: "py_add (PStr s) (PInt i) = Inl TypeError"
  by (simp add: py_add_def)

lemma py_add_int_str: "py_add (PInt i) (PStr s) = Inl TypeError"
  by (simp add: py_add_def)

lemma py_mul_str_str: "py_mul (PStr s) (PStr t) = Inl TypeError"
  by (simp add: py_mul_def)

lemma repeated_not_TypeError: "repeated s k \<noteq> Inl TypeError"
  by (simp add: repeated_def str_repeat_def)

text \<open>Within the index range, and with a result that fits an index, repetition returns
  the copies.\<close>

lemma str_repeat_fits:
  assumes "0 \<le> k" and "k \<le> PY_SSIZE_T_MAX" and "int (length s) * k \<le> PY_SSIZE_T_MAX"
  shows "str_repeat s k = Inr (concat (replicate (nat k) s))"
proof -
  have range: "\<not> (k < - PY_SSIZE_T_MAX - 1 \<or> PY_SSIZE_T_MAX < k)"
    using assms(1,2) by (simp add: PY_SSIZE_T_MAX_def)
  consider "k = 0" | "k = 1" | "1 < k" using assms(1) by linarith
  then show ?thesis
  proof cases
    case 1
    then show ?thesis using range by (simp add: str_repeat_def)
  next
    case 2
    then show ?thesis using range by (simp add: str_repeat_def)
  next
    case 3
    then have "0 < k" by simp
    from assms(3) have "int (length s) * k div k \<le> PY_SSIZE_T_MAX div k"
      using \<open>0 < k\<close> by (intro zdiv_mono1) simp_all
    then have "int (length s) \<le> PY_SSIZE_T_MAX div k"
      using \<open>0 < k\<close> by simp
    then show ?thesis using range 3 by (simp add: str_repeat_def)
  qed
qed

section \<open>Facts about decimal text\<close>

lemma digit_val_digit: "d < 10 \<Longrightarrow> digit_val (digit d) = d"
proof -
  assume "d < 10"
  then have "d \<in> {0, 1, 2, 3, 4, 5, 6, 7, 8, 9}" by auto
  then show ?thesis by (auto simp: digit_val_def digit_def)
qed

text \<open>The text written for \<open>n\<close> denotes \<open>n\<close>.\<close>

lemma decimal_value_digits: "decimal_value (digits n) = n"
proof (induction n rule: digits.induct)
  case (1 n)
  show ?case
  proof (cases "n < 10")
    case True
    then show ?thesis
      by (simp add: digits.simps [of n] decimal_value_def digit_val_digit)
  next
    case False
    with "1" have IH: "decimal_value (digits (n div 10)) = n div 10" by simp
    have "decimal_value (digits n) = 10 * decimal_value (digits (n div 10)) + n mod 10"
      using False by (simp add: digits.simps [of n] decimal_value_def digit_val_digit)
    with IH show ?thesis by simp
  qed
qed

text \<open>A number below \<open>10 ^ k\<close> has at most \<open>k\<close> digits, a number from \<open>10 ^ k\<close> on has
  more.\<close>

lemma digits_short: "n < 10 ^ k \<Longrightarrow> 0 < k \<Longrightarrow> length (digits n) \<le> k"
proof (induction n arbitrary: k rule: digits.induct)
  case (1 n)
  show ?case
  proof (cases "n < 10")
    case True
    with "1.prems" show ?thesis by (simp add: digits.simps [of n])
  next
    case False
    from "1.prems" obtain j where k: "k = Suc j" by (cases k) auto
    have "j \<noteq> 0" using False "1.prems" k by (cases j) auto
    moreover have "n div 10 < 10 ^ j"
      using "1.prems" k by (simp add: less_mult_imp_div_less mult.commute)
    ultimately have "length (digits (n div 10)) \<le> j" using "1.IH" False by simp
    then show ?thesis using False k by (simp add: digits.simps [of n])
  qed
qed

lemma digits_long: "10 ^ k \<le> n \<Longrightarrow> k < length (digits n)"
proof (induction n arbitrary: k rule: digits.induct)
  case (1 n)
  show ?case
  proof (cases "n < 10")
    case True
    have "k = 0"
    proof (cases k)
      case 0
      then show ?thesis .
    next
      case (Suc j)
      have "(1::nat) \<le> 10 ^ j" by simp
      then have "(10::nat) \<le> 10 * 10 ^ j" by simp
      with "1.prems" Suc True show ?thesis by simp
    qed
    then show ?thesis using True by (simp add: digits.simps [of n])
  next
    case False
    show ?thesis
    proof (cases k)
      case 0
      then show ?thesis using False by (simp add: digits.simps [of n])
    next
      case (Suc j)
      with "1.prems" have "10 ^ j \<le> n div 10"
        by (simp add: less_eq_div_iff_mult_less_eq mult.commute)
      then have "j < length (digits (n div 10))" using "1.IH" False by simp
      then show ?thesis using False Suc by (simp add: digits.simps [of n])
    qed
  qed
qed

lemma str_int_5: "str_int 5 = ''5''"
  by (simp add: str_int_def digits.simps digit_def)

lemma str_int_20: "str_int 20 = ''20''"
  by (simp add: str_int_def digits.simps digit_def)

lemma str_int_42: "str_int 42 = ''42''"
  by (simp add: str_int_def digits.simps digit_def)

lemma py_str_5: "py_str (PInt 5) = Inr ''5''"
  by (simp add: str_int_5 int_max_str_digits_def digits.simps)

lemma py_str_20: "py_str (PInt 20) = Inr ''20''"
  by (simp add: str_int_20 int_max_str_digits_def digits.simps)

lemma py_str_42: "py_str (PInt 42) = Inr ''42''"
  by (simp add: str_int_42 int_max_str_digits_def digits.simps)

lemma digits_abs_short:
  assumes "\<bar>i\<bar> < 10 ^ k" and "0 < k"
  shows "length (digits (nat \<bar>i\<bar>)) \<le> k"
proof -
  from assms(1) have "nat \<bar>i\<bar> < 10 ^ k"
    by (simp add: nat_less_iff)
  then show ?thesis using assms(2) by (rule digits_short)
qed

lemma digits_abs_long:
  assumes "10 ^ k \<le> \<bar>i\<bar>"
  shows "k < length (digits (nat \<bar>i\<bar>))"
proof -
  from assms have "10 ^ k \<le> nat \<bar>i\<bar>"
    by (simp add: le_nat_iff)
  then show ?thesis by (rule digits_long)
qed

lemma py_str_small:
  assumes "\<bar>i\<bar> < 10 ^ 4300"
  shows "py_str (PInt i) = Inr (str_int i)"
proof -
  have "length (digits (nat \<bar>i\<bar>)) \<le> 4300"
    using assms by (rule digits_abs_short) simp
  then show ?thesis by (simp add: int_max_str_digits_def)
qed

lemma py_str_large:
  assumes "10 ^ 4300 \<le> \<bar>i\<bar>"
  shows "py_str (PInt i) = Inl ValueError"
proof -
  have "4300 < length (digits (nat \<bar>i\<bar>))"
    using assms by (rule digits_abs_long)
  then show ?thesis by (simp add: int_max_str_digits_def)
qed

section \<open>The unit tests of \<^verbatim>\<open>test_main.py\<close>\<close>

lemma test_add:
  "fst (add (PInt 2) (PInt 3) w) = Inr (PInt 5)"
  "fst (add (PInt (- 1)) (PInt 1) w) = Inr (PInt 0)"
  "fst (add (PInt 0) (PInt 0) w) = Inr (PInt 0)"
  by (simp_all add: add_def py_add_int)

lemma test_multiply:
  "fst (multiply (PInt 2) (PInt 3) w) = Inr (PInt 6)"
  "fst (multiply (PInt (- 2)) (PInt 3) w) = Inr (PInt (- 6))"
  "fst (multiply (PInt 0) (PInt 5) w) = Inr (PInt 0)"
  by (simp_all add: multiply_def py_mul_int)

lemma test_greet:
  "fst (greet (PStr ''Alice'') w) = Inr (PStr ''Hello, Alice!'')"
  "fst (greet (PStr ''Bob'') w) = Inr (PStr ''Hello, Bob!'')"
  by (simp_all add: greet_def fstring_def)

text \<open>Unlike the three functions, \<^verbatim>\<open>print\<close> changes the world.\<close>

lemma print_changes_world:
  "snd (print (PStr ''x'') \<lparr>stdout = ''''\<rparr>) \<noteq> \<lparr>stdout = ''''\<rparr>"
  by (simp add: print_def)

section \<open>Arithmetic on integers\<close>

text \<open>
  C1. For all integers \<open>a\<close> and \<open>b\<close>, \<^verbatim>\<open>add(a, b)\<close> returns normally, its value is the
  integer \<open>a + b\<close>, and the world is as before the call.
\<close>

theorem add_int_sum: "add (PInt a) (PInt b) w = (Inr (PInt (a + b)), w)"
  by (simp add: add_def py_add_int)

text \<open>
  C2. For all integers \<open>a\<close> and \<open>b\<close>, \<^verbatim>\<open>multiply(a, b)\<close> returns normally, its value is
  the integer \<open>a * b\<close>, and the world is as before the call.
\<close>

theorem multiply_int_product: "multiply (PInt a) (PInt b) w = (Inr (PInt (a * b)), w)"
  by (simp add: multiply_def py_mul_int)

text \<open>
  C8. On integers both functions are commutative: \<^verbatim>\<open>add(a, b) == add(b, a)\<close> and
  \<^verbatim>\<open>multiply(a, b) == multiply(b, a)\<close>.
\<close>

theorem add_multiply_commute:
  "add (PInt a) (PInt b) w = add (PInt b) (PInt a) w
   \<and> multiply (PInt a) (PInt b) w = multiply (PInt b) (PInt a) w"
  by (simp add: add_def multiply_def py_add_int py_mul_int add.commute mult.commute)

text \<open>
  C9. Zero is a two-sided identity of \<^verbatim>\<open>add\<close> on integers, and \<^verbatim>\<open>multiply(0, b)\<close> is
  zero for every integer \<open>b\<close>.
\<close>

theorem zero_identity_and_annihilator:
  "add (PInt a) (PInt 0) w = (Inr (PInt a), w)
   \<and> add (PInt 0) (PInt a) w = (Inr (PInt a), w)
   \<and> multiply (PInt 0) (PInt b) w = (Inr (PInt 0), w)"
  by (simp add: add_def multiply_def py_add_int py_mul_int)

section \<open>Greeting\<close>

text \<open>
  C3. For every string \<open>n\<close>, \<^verbatim>\<open>greet(n)\<close> returns the string made of \<^verbatim>\<open>Hello, \<close>,
  then \<open>n\<close> character for character, then \<^verbatim>\<open>!\<close>.
\<close>

theorem greet_string: "greet (PStr n) w = (Inr (PStr (''Hello, '' @ n @ ''!'')), w)"
  by (simp add: greet_def fstring_def)

text \<open>
  C7, as stated, says that \<^verbatim>\<open>greet\<close> returns for any value that is not a string. It
  fails at the integer \<open>10 ^ 4300\<close>, which has 4301 digits: the f-string field raises
  \<^verbatim>\<open>ValueError\<close> and \<^verbatim>\<open>greet\<close> returns nothing.
\<close>

theorem greet_value_counterexample:
  "greet (PInt (10 ^ 4300)) \<lparr>stdout = ''''\<rparr> = (Inl ValueError, \<lparr>stdout = ''''\<rparr>)"
proof -
  have "(10::int) ^ 4300 \<le> \<bar>10 ^ 4300\<bar>" by (rule abs_ge_self)
  then have "py_str (PInt (10 ^ 4300)) = Inl ValueError" by (rule py_str_large)
  then show ?thesis by (simp only: greet_def fstring_def sum.case)
qed

text \<open>
  C7, amended. \<^verbatim>\<open>greet\<close> applied to \<^verbatim>\<open>None\<close>, to a boolean, or to an integer of at most
  4300 decimal digits (an integer \<open>i\<close> with \<open>\<bar>i\<bar> < 10 ^ 4300\<close>, such as 42) does not raise:
  it returns \<^verbatim>\<open>Hello, \<close>, the value's \<^verbatim>\<open>str\<close> text and \<^verbatim>\<open>!\<close>. For the integer 42 the
  result is \<^verbatim>\<open>Hello, 42!\<close>; for an integer the text is its sign and the decimal digits
  that denote its magnitude.
\<close>

theorem greet_builtin_value:
  "greet PNone w = (Inr (PStr ''Hello, None!''), w)
   \<and> greet (PBool True) w = (Inr (PStr ''Hello, True!''), w)
   \<and> greet (PBool False) w = (Inr (PStr ''Hello, False!''), w)
   \<and> greet (PInt 42) w = (Inr (PStr ''Hello, 42!''), w)
   \<and> (\<bar>i\<bar> < 10 ^ 4300 \<longrightarrow>
        greet (PInt i) w = (Inr (PStr (''Hello, '' @ str_int i @ ''!'')), w)
        \<and> decimal_value (digits (nat \<bar>i\<bar>)) = nat \<bar>i\<bar>)"
proof -
  have N: "greet PNone w = (Inr (PStr ''Hello, None!''), w)"
    by (simp add: greet_def fstring_def)
  have T: "greet (PBool True) w = (Inr (PStr ''Hello, True!''), w)"
    by (simp add: greet_def fstring_def)
  have F: "greet (PBool False) w = (Inr (PStr ''Hello, False!''), w)"
    by (simp add: greet_def fstring_def)
  have A: "greet (PInt 42) w = (Inr (PStr ''Hello, 42!''), w)"
    by (simp only: greet_def fstring_def py_str_42 sum.case append.simps)
  have I: "greet (PInt i) w = (Inr (PStr (''Hello, '' @ str_int i @ ''!'')), w)"
    if "\<bar>i\<bar> < 10 ^ 4300"
    using py_str_small [OF that] by (simp only: greet_def fstring_def sum.case)
  from N T F A I decimal_value_digits show ?thesis by blast
qed

theorem greet_builtin_value_witness:
  "\<bar>- 7 :: int\<bar> < 10 ^ 4300
   \<and> greet (PInt (- 7)) \<lparr>stdout = ''''\<rparr> = (Inr (PStr ''Hello, -7!''), \<lparr>stdout = ''''\<rparr>)"
proof -
  have "\<bar>- 7 :: int\<bar> < 10 ^ 1" by simp
  also have "(10::int) ^ 1 \<le> 10 ^ 4300" by (rule power_increasing) simp_all
  finally have h: "\<bar>- 7 :: int\<bar> < 10 ^ 4300" .
  have e: "''Hello, '' @ str_int (- 7) @ ''!'' = ''Hello, -7!''"
    by (simp add: str_int_def digits.simps digit_def)
  from greet_builtin_value [of "\<lparr>stdout = ''''\<rparr>" "- 7"] h
  have "greet (PInt (- 7)) \<lparr>stdout = ''''\<rparr>
        = (Inr (PStr (''Hello, '' @ str_int (- 7) @ ''!'')), \<lparr>stdout = ''''\<rparr>)"
    by blast
  then have "greet (PInt (- 7)) \<lparr>stdout = ''''\<rparr>
        = (Inr (PStr ''Hello, -7!''), \<lparr>stdout = ''''\<rparr>)"
    by (simp only: e)
  with h show ?thesis by (rule conjI)
qed

section \<open>Operands that are not both numbers\<close>

text \<open>
  C6, as stated, says that \<^verbatim>\<open>multiply(s, k)\<close> returns for every string \<open>s\<close> and every
  non-negative integer \<open>k\<close>. It fails at the empty string and \<open>k = 2 ^ 63\<close>: the count
  does not fit an index and \<^verbatim>\<open>OverflowError\<close> is raised.
\<close>

theorem string_repeat_counterexample:
  "multiply (PStr '''') (PInt (2 ^ 63)) \<lparr>stdout = ''''\<rparr>
     = (Inl OverflowError, \<lparr>stdout = ''''\<rparr>)"
  by (simp add: multiply_def py_mul_str_int repeated_def str_repeat_def PY_SSIZE_T_MAX_def)

text \<open>
  C6, amended. On two strings \<^verbatim>\<open>add\<close> returns their concatenation. On a string \<open>s\<close>
  and an integer \<open>k\<close> with \<open>0 \<le> k \<le> 2 ^ 63 - 1\<close> whose product with the length of \<open>s\<close>
  is at most \<open>2 ^ 63 - 1\<close>, \<^verbatim>\<open>multiply\<close> returns \<open>k\<close> copies of \<open>s\<close> in a row. Neither call
  raises (memory for the result being available).
\<close>

theorem string_overloads:
  "add (PStr s) (PStr t) w = (Inr (PStr (s @ t)), w)
   \<and> (0 \<le> k \<and> k \<le> 2 ^ 63 - 1 \<and> int (length s) * k \<le> 2 ^ 63 - 1 \<longrightarrow>
        multiply (PStr s) (PInt k) w = (Inr (PStr (concat (replicate (nat k) s))), w))"
proof -
  have A: "add (PStr s) (PStr t) w = (Inr (PStr (s @ t)), w)"
    by (simp add: add_def py_add_str)
  have M: "multiply (PStr s) (PInt k) w = (Inr (PStr (concat (replicate (nat k) s))), w)"
    if "0 \<le> k" and "k \<le> 2 ^ 63 - 1" and "int (length s) * k \<le> 2 ^ 63 - 1"
  proof -
    have "str_repeat s k = Inr (concat (replicate (nat k) s))"
      using that by (intro str_repeat_fits) (simp_all add: PY_SSIZE_T_MAX_def)
    then show ?thesis
      by (simp add: multiply_def py_mul_str_int repeated_def)
  qed
  from A M show ?thesis by blast
qed

theorem string_overloads_witness:
  "(0::int) \<le> 3 \<and> (3::int) \<le> 2 ^ 63 - 1 \<and> int (length ''ab'') * 3 \<le> 2 ^ 63 - 1
   \<and> add (PStr ''ab'') (PStr ''cd'') \<lparr>stdout = ''''\<rparr> = (Inr (PStr ''abcd''), \<lparr>stdout = ''''\<rparr>)
   \<and> multiply (PStr ''ab'') (PInt 3) \<lparr>stdout = ''''\<rparr> = (Inr (PStr ''ababab''), \<lparr>stdout = ''''\<rparr>)"
  using string_overloads [of "''ab''" "''cd''" "\<lparr>stdout = ''''\<rparr>" 3]
  by (simp add: eval_nat_numeral)

text \<open>
  C5, as stated, says that every pair of arguments that are not both numbers makes
  \<^verbatim>\<open>add\<close> and \<^verbatim>\<open>multiply\<close> raise a type error. It fails on the claim's own example of a
  string and a number passed to \<^verbatim>\<open>multiply\<close>, and on two strings passed to \<^verbatim>\<open>add\<close>:
  both calls return a string.
\<close>

theorem type_error_counterexample:
  "multiply (PStr ''ab'') (PInt 2) \<lparr>stdout = ''''\<rparr> = (Inr (PStr ''abab''), \<lparr>stdout = ''''\<rparr>)
   \<and> add (PStr ''ab'') (PStr ''cd'') \<lparr>stdout = ''''\<rparr> = (Inr (PStr ''abcd''), \<lparr>stdout = ''''\<rparr>)"
  by (simp add: add_def multiply_def py_add_str py_mul_str_int repeated_def str_repeat_def
      PY_SSIZE_T_MAX_def eval_nat_numeral)

text \<open>
  C5, amended. A string and an integer passed to \<^verbatim>\<open>add\<close>, in either order, and two
  strings passed to \<^verbatim>\<open>multiply\<close>, raise \<^verbatim>\<open>TypeError\<close> at the operator; the function does
  not catch or translate it, so the caller receives the same \<^verbatim>\<open>TypeError\<close>, with the
  world untouched. Two strings passed to \<^verbatim>\<open>add\<close>, and a string with an integer passed
  to \<^verbatim>\<open>multiply\<close>, do not raise \<^verbatim>\<open>TypeError\<close>.
\<close>

theorem type_error_pairs:
  "py_add (PStr s) (PInt i) = Inl TypeError
   \<and> add (PStr s) (PInt i) w = (Inl TypeError, w)
   \<and> py_add (PInt i) (PStr s) = Inl TypeError
   \<and> add (PInt i) (PStr s) w = (Inl TypeError, w)
   \<and> py_mul (PStr s) (PStr t) = Inl TypeError
   \<and> multiply (PStr s) (PStr t) w = (Inl TypeError, w)
   \<and> fst (add (PStr s) (PStr t) w) \<noteq> Inl TypeError
   \<and> fst (multiply (PStr s) (PInt i) w) \<noteq> Inl TypeError"
  by (simp add: add_def multiply_def py_add_str_int py_add_int_str py_mul_str_str
      py_add_str py_mul_str_int repeated_not_TypeError)

section \<open>The entry point\<close>

text \<open>
  C4. Run as a script (\<^verbatim>\<open>__name__\<close> is \<^verbatim>\<open>__main__\<close>), the module ends normally with exit
  status 0 and has appended to standard output exactly the three lines
  \<^verbatim>\<open>Hello, World!\<close>, \<^verbatim>\<open>2 + 3 = 5\<close> and \<^verbatim>\<open>4 * 5 = 20\<close>, in this order, each ended by a
  newline.
\<close>

theorem main_output:
  "run_module ''__main__'' w =
     (Inr (), w\<lparr>stdout := stdout w @ ''Hello, World!'' @ [CHR 0x0A]
                                     @ ''2 + 3 = 5'' @ [CHR 0x0A]
                                     @ ''4 * 5 = 20'' @ [CHR 0x0A]\<rparr>)
   \<and> exit_code (run_module ''__main__'' w) = 0"
  by (simp add: run_module_def main_block_def bindp_def print_def greet_def fstring_def
      add_def multiply_def py_add_int py_mul_int py_str_5 py_str_20 exit_code_def
      del: py_str.simps(2))

section \<open>Purity\<close>


end
